theory Spec2Isabelle
  imports Main "HOL-Library.Word" "HOL-Library.AList"
begin

section \<open>The BlueZ D-Bus server of bless: data model\<close>

text \<open>
  A shallow embedding of \<^verbatim>\<open>bless/backends/bluezdbus/server.py\<close>, class
  \<^verbatim>\<open>BlessServerBlueZDBus\<close>. The Python object is a record that every method takes
  and returns; an exception is the \<open>Inl\<close> of a sum. The transport (txdbus, the system
  bus) is not part of the repository: the outcome of each call to it is read from an
  environment, and each call issued is appended to a ghost trace.
\<close>

subsection \<open>Python values and exceptions\<close>

type_synonym bytes = "8 word list"

text \<open>
  The exceptions the modelled code can raise. All of them are subclasses of Python's
  \<^verbatim>\<open>Exception\<close>, so an \<^verbatim>\<open>except Exception\<close> clause catches each.
\<close>

datatype error =
    KeyError string
  | AttributeError string
  | StopIteration
  | TypeError string
  | DBusError string
  | HandlerError string
  | DuplicateService
  | DuplicateCharacteristic
  | UnknownService
  | UnknownCharacteristic
  | NothingToAdvertise

text \<open>What \<^verbatim>\<open>update_value\<close> can return: a bool, or \<^verbatim>\<open>None\<close> when it falls off its end.\<close>

datatype pyval = PyNone | PyBool bool

text \<open>
  An arbitrary Python object given as a callback: the default \<^verbatim>\<open>lambda _: None\<close> of
  the constructor, a function of the application (named by a number), or something that
  is not callable.
\<close>

datatype pyobj = DefaultLambda | Function nat | NoneObj | IntObj int | StrObj string

fun callable :: "pyobj \<Rightarrow> bool" where
  "callable DefaultLambda = True"
| "callable (Function _) = True"
| "callable NoneObj = False"
| "callable (IntObj _) = False"
| "callable (StrObj _) = False"

subsection \<open>UUID arguments: \<^verbatim>\<open>str(x).lower()\<close>\<close>

text \<open>
  A UUID argument is a \<^verbatim>\<open>str\<close> or a \<^verbatim>\<open>uuid.UUID\<close>, whose state is a 128-bit integer.
  \<^verbatim>\<open>str\<close> of a string is the string; \<^verbatim>\<open>str\<close> of a \<^verbatim>\<open>uuid.UUID\<close> is its 32 lowercase
  hexadecimal digits in groups of 8-4-4-4-12. Strings are ASCII here, as UUID strings
  are; \<^verbatim>\<open>lower\<close> maps \<^verbatim>\<open>A\<close> to \<^verbatim>\<open>Z\<close> onto \<^verbatim>\<open>a\<close> to \<^verbatim>\<open>z\<close> and keeps every other character.
\<close>

datatype uuid_arg = UStr string | UObj "128 word"

definition hex_digit :: "nat \<Rightarrow> char" where
  "hex_digit n = (if n < 10 then char_of (48 + n) else char_of (87 + n))"

definition hex32 :: "128 word \<Rightarrow> string" where
  "hex32 w = map (\<lambda>i. hex_digit (unat (take_bit 4 (drop_bit (4 * (31 - i)) w)))) [0..<32]"

definition str :: "uuid_arg \<Rightarrow> string" where
  "str u =
     (case u of
        UStr s \<Rightarrow> s
      | UObj w \<Rightarrow>
          (let h = hex32 w
           in take 8 h @ ''-'' @ take 4 (drop 8 h) @ ''-'' @ take 4 (drop 12 h) @ ''-'' @
              take 4 (drop 16 h) @ ''-'' @ drop 20 h))"

definition is_upper :: "char \<Rightarrow> bool" where
  "is_upper c = (65 \<le> (of_char c :: nat) \<and> (of_char c :: nat) \<le> 90)"

definition lower_char :: "char \<Rightarrow> char" where
  "lower_char c = (if is_upper c then char_of ((of_char c :: nat) + 32) else c)"

definition lower :: "string \<Rightarrow> string" where
  "lower s = map lower_char s"

text \<open>\<^verbatim>\<open>s.replace(old, new)\<close> for single characters, and \<^verbatim>\<open>s.replace(" ", "")\<close>.\<close>

definition replace_char :: "char \<Rightarrow> char \<Rightarrow> string \<Rightarrow> string" where
  "replace_char old new s = map (\<lambda>c. if c = old then new else c) s"

definition remove_char :: "char \<Rightarrow> string \<Rightarrow> string" where
  "remove_char old s = filter (\<lambda>c. c \<noteq> old) s"

subsection \<open>The GATT application (\<^verbatim>\<open>BlueZGattApplication\<close>)\<close>

text \<open>
  The class is in \<^verbatim>\<open>bless/backends/bluezdbus/application.py\<close>, which is missing from the
  sources; the server only calls it. Its object graph is modelled from the
  specification's Backend Adapter (section 4.2).
\<close>

datatype flag =
    Broadcast | Read | WriteWithoutResponse | Write | Notify | Indicate
  | AuthenticatedSignedWrites | ExtendedProperties

text \<open>The backend-assigned opaque path of a registered object.\<close>

datatype handle = ServiceHandle nat | CharacteristicHandle nat nat

record gatt_characteristic =
  gc_uuid :: string
  gc_path :: handle
  gc_value :: bytes
  gc_flags :: "flag list"
  gc_subscribers :: "string list"

record gatt_service =
  gs_uuid :: string
  gs_path :: handle
  gs_characteristics :: "gatt_characteristic list"

record application =
  app_name :: string
  destination :: string
  app_services :: "gatt_service list"
  registered :: bool
  advertising :: bool

text \<open>
  Modelled from the spec: the constructor of \<^verbatim>\<open>BlueZGattApplication\<close> is missing. A new
  application has its name and bus destination and no service; it is neither registered
  nor advertising (the adapter's state \<^verbatim>\<open>Ready\<close>).
\<close>

definition new_application :: "string \<Rightarrow> string \<Rightarrow> application" where
  "new_application nm dest =
     \<lparr>app_name = nm, destination = dest, app_services = [], registered = False,
      advertising = False\<rparr>"

text \<open>
  Modelled from the spec: \<^verbatim>\<open>BlueZGattApplication.add_service\<close> is missing. "addService(uuid):
  registers a new service node in the native object graph; returns an opaque handle. Must
  reject (fails with DuplicateService) if the UUID is already registered."
\<close>

definition app_add_service ::
  "application \<Rightarrow> string \<Rightarrow> error + (gatt_service \<times> application)" where
  "app_add_service a uuid =
     (if uuid \<in> set (map gs_uuid (app_services a)) then Inl DuplicateService
      else
        (let sv = \<lparr>gs_uuid = uuid, gs_path = ServiceHandle (length (app_services a) + 1),
                   gs_characteristics = []\<rparr>
         in Inr (sv, a\<lparr>app_services := app_services a @ [sv]\<rparr>)))"

text \<open>The first element of a list that satisfies a predicate, with its position.\<close>

fun find_index_of :: "('a \<Rightarrow> bool) \<Rightarrow> 'a list \<Rightarrow> nat option" where
  "find_index_of p [] = None"
| "find_index_of p (x # xs) =
     (if p x then Some 0 else map_option Suc (find_index_of p xs))"

text \<open>
  Modelled from the spec: \<^verbatim>\<open>BlueZGattApplication.add_characteristic\<close> is missing.
  "addCharacteristic: registers a characteristic under a service. Fails with UnknownService
  if the service handle is stale/invalid, DuplicateCharacteristic if the UUID already exists
  in that service."
\<close>

definition app_add_characteristic ::
  "application \<Rightarrow> string \<Rightarrow> string \<Rightarrow> bytes \<Rightarrow> flag list \<Rightarrow>
   error + (gatt_characteristic \<times> application)" where
  "app_add_characteristic a service_uuid char_uuid val flags =
     (case find_index_of (\<lambda>sv. gs_uuid sv = service_uuid) (app_services a) of
        None \<Rightarrow> Inl UnknownService
      | Some i \<Rightarrow>
          (let sv = app_services a ! i
           in if char_uuid \<in> set (map gc_uuid (gs_characteristics sv))
              then Inl DuplicateCharacteristic
              else
                (let ch = \<lparr>gc_uuid = char_uuid,
                           gc_path = CharacteristicHandle (i + 1)
                                       (length (gs_characteristics sv) + 1),
                           gc_value = val, gc_flags = flags, gc_subscribers = []\<rparr>;
                     sv' = sv\<lparr>gs_characteristics := gs_characteristics sv @ [ch]\<rparr>
                 in Inr (ch, a\<lparr>app_services := (app_services a)[i := sv']\<rparr>))))"

subsection \<open>The bleak value objects the server keeps\<close>

text \<open>
  \<^verbatim>\<open>BleakGATTServiceBlueZDBus\<close> and \<^verbatim>\<open>BleakGATTCharacteristicBlueZDBus\<close> come from the
  client library bleak. They wrap the property dictionary that \<^verbatim>\<open>GetAll\<close> returned (its
  entries \<^verbatim>\<open>UUID\<close> and \<^verbatim>\<open>Value\<close> are kept here) and a path. The attribute \<^verbatim>\<open>value\<close> that
  \<^verbatim>\<open>update_value\<close> reads may be unset, which is what the \<^verbatim>\<open>try\<close> around that read
  ("No set value for characteristic") provides for: \<open>bc_value\<close> is \<open>None\<close> from the
  constructor until the application assigns the attribute.
\<close>

record bleak_characteristic =
  bc_uuid :: string
  bc_path :: handle
  bc_service_uuid :: string
  bc_obj_value :: bytes
  bc_value :: "bytes option"

record bleak_service =
  bs_uuid :: string
  bs_path :: handle
  bs_characteristics :: "bleak_characteristic list"

text \<open>
  \<^verbatim>\<open>BleakGATTServiceBlueZDBus.get_characteristic(uuid)\<close> is code of the library bleak, not of
  this repository, and is not among the sources. It is modelled from the way
  \<^verbatim>\<open>update_value\<close> uses it: the first characteristic whose UUID equals the argument, or
  \<^verbatim>\<open>None\<close> (which \<^verbatim>\<open>update_value\<close> tests for). Releases of bleak differ in whether the
  argument is lowercased before the comparison; on a lowercase argument the two readings
  agree, and every theorem below that evaluates this lookup does so on a lowercase
  characteristic UUID.
\<close>

definition get_characteristic :: "bleak_service \<Rightarrow> string \<Rightarrow> bleak_characteristic option" where
  "get_characteristic sv uuid = find (\<lambda>c. bc_uuid c = uuid) (bs_characteristics sv)"

text \<open>
  Modelled from the spec: \<^verbatim>\<open>BlueZGattService.get_characteristic\<close> is missing. A
  characteristic is "identified by (service UUID, characteristic UUID)": the
  characteristic of the service with that UUID, or \<^verbatim>\<open>None\<close>.
\<close>

definition gatt_get_characteristic ::
  "gatt_service \<Rightarrow> string \<Rightarrow> gatt_characteristic option" where
  "gatt_get_characteristic sv uuid = find (\<lambda>c. gc_uuid c = uuid) (gs_characteristics sv)"

subsection \<open>The transport and the server object\<close>

text \<open>
  The calls that leave the process: the bus connection, the adapter lookup, the calls on
  the bus object, and what the application object sends to the adapter.
\<close>

datatype native_call =
    Connect
  | GetAdapter
  | ExportObject string
  | RequestBusName string
  | GetRemoteObject string handle
  | GetAll handle string
  | CallRemote string string string string
  | AddMatch pyobj string string
  | Register
  | Unregister
  | StartAdvertising
  | StopAdvertising
  | QueryConnected
  | PropertiesChanged handle bytes

text \<open>
  The environment: whether a native call fails (and with which exception), whether a
  central is connected, and \<^verbatim>\<open>Flags.from_bless\<close>, which is defined in a missing file and
  is taken as a parameter.
\<close>

record env =
  native_outcome :: "native_call \<Rightarrow> error option"
  central_connected :: bool
  from_bless :: "nat \<Rightarrow> flag list"

datatype task = Pending | Done | Failed error

datatype bus = SystemBus

datatype adapter = Adapter

text \<open>
  The fields of \<^verbatim>\<open>BlessServerBlueZDBus\<close>. \<open>bus\<close>, \<open>app\<close> and \<open>adapter\<close> are assigned
  by the setup coroutine only: \<open>None\<close> is an attribute that does not exist yet. \<open>trace\<close>
  is a ghost field, the native calls issued so far.
\<close>

record server =
  name :: string
  adapter_path :: string
  services :: "(string \<times> bleak_service) list"
  setup_task :: task
  bus :: "bus option"
  app :: "application option"
  adapter :: "adapter option"
  connected_callback :: pyobj
  disconnected_callback :: pyobj
  trace :: "native_call list"

definition GATT_SERVICE_INTERFACE :: string where
  "GATT_SERVICE_INTERFACE = ''org.bluez.GattService1''"

definition GATT_CHARACTERISTIC_INTERFACE :: string where
  "GATT_CHARACTERISTIC_INTERFACE = ''org.bluez.GattCharacteristic1''"

definition DEVICE_INTERFACE :: string where
  "DEVICE_INTERFACE = ''org.bluez.Device1''"

definition BLUEZ_SERVICE :: string where
  "BLUEZ_SERVICE = ''org.bluez''"

definition OBJECT_MANAGER :: string where
  "OBJECT_MANAGER = ''org.freedesktop.DBus.ObjectManager''"

text \<open>
  \<^verbatim>\<open>__init__(name, loop, **kwargs)\<close>: the second argument is \<^verbatim>\<open>kwargs.get("path")\<close>, which
  counts only when it is truthy. The setup task is created, not yet run.
\<close>

definition init :: "string \<Rightarrow> string option \<Rightarrow> server" where
  "init nm path =
     \<lparr>name = nm,
      adapter_path =
        (case path of
           None \<Rightarrow> ''/org/bluez/hci0/''
         | Some p \<Rightarrow> if p = [] then ''/org/bluez/hci0/'' else ''/org/bluez/'' @ p @ ''/''),
      services = [],
      setup_task = Pending,
      bus = None, app = None, adapter = None,
      connected_callback = DefaultLambda,
      disconnected_callback = DefaultLambda,
      trace = []\<rparr>"

subsection \<open>Sequencing, attribute access, native calls\<close>

text \<open>Statement after statement: an exception ends the method with the state reached.\<close>

definition seq ::
  "(error + 'a) \<times> server \<Rightarrow> ('a \<Rightarrow> server \<Rightarrow> (error + 'b) \<times> server) \<Rightarrow>
   (error + 'b) \<times> server" where
  "seq m f = (case m of (Inl e, s) \<Rightarrow> (Inl e, s) | (Inr x, s) \<Rightarrow> f x s)"

definition lift :: "error + 'a \<Rightarrow> server \<Rightarrow> (error + 'a) \<times> server" where
  "lift r s = (r, s)"

definition native :: "env \<Rightarrow> native_call \<Rightarrow> server \<Rightarrow> (error + unit) \<times> server" where
  "native ev c s =
     (case native_outcome ev c of None \<Rightarrow> Inr () | Some e \<Rightarrow> Inl e,
      s\<lparr>trace := trace s @ [c]\<rparr>)"

definition get_bus :: "server \<Rightarrow> (error + bus) \<times> server" where
  "get_bus s = (case bus s of None \<Rightarrow> Inl (AttributeError ''bus'') | Some b \<Rightarrow> Inr b, s)"

definition get_app :: "server \<Rightarrow> (error + application) \<times> server" where
  "get_app s = (case app s of None \<Rightarrow> Inl (AttributeError ''app'') | Some a \<Rightarrow> Inr a, s)"

definition get_adapter_attr :: "server \<Rightarrow> (error + adapter) \<times> server" where
  "get_adapter_attr s =
     (case adapter s of None \<Rightarrow> Inl (AttributeError ''adapter'') | Some a \<Rightarrow> Inr a, s)"

subsection \<open>Setup\<close>

text \<open>
  The coroutine \<^verbatim>\<open>setup\<close> (the name is taken in Isabelle): connect to the system bus,
  build the application under the server's name without its spaces, resolve the adapter.
  The hooks \<^verbatim>\<open>Read\<close>, \<^verbatim>\<open>Write\<close>, \<^verbatim>\<open>StartNotify\<close> and \<^verbatim>\<open>StopNotify\<close> it installs are the
  functions \<open>read\<close> and \<open>write_hook\<close> below.
\<close>

definition setup_coro :: "env \<Rightarrow> server \<Rightarrow> (error + unit) \<times> server" where
  "setup_coro ev s =
     seq (native ev Connect s) (\<lambda>_ s.
       let s = s\<lparr>bus := Some SystemBus\<rparr>;
           gatt_name = remove_char CHR '' '' (name s);
           s = s\<lparr>app := Some (new_application gatt_name (''org.bluez.'' @ gatt_name))\<rparr>
       in seq (native ev GetAdapter s) (\<lambda>_ s. (Inr (), s\<lparr>adapter := Some Adapter\<rparr>)))"

text \<open>
  \<^verbatim>\<open>await self.setup_task\<close>. The task was created once, by the constructor: awaiting it
  while it is pending runs the coroutine to its end and records the outcome; awaiting it
  later returns at once, or raises the recorded exception again.
\<close>

definition await_setup :: "env \<Rightarrow> server \<Rightarrow> (error + unit) \<times> server" where
  "await_setup ev s =
     (case setup_task s of
        Pending \<Rightarrow>
          (case setup_coro ev s of
             (Inl e, s') \<Rightarrow> (Inl e, s'\<lparr>setup_task := Failed e\<rparr>)
           | (Inr _, s') \<Rightarrow> (Inr (), s'\<lparr>setup_task := Done\<rparr>))
      | Done \<Rightarrow> (Inr (), s)
      | Failed e \<Rightarrow> (Inl e, s))"

subsection \<open>Services and characteristics\<close>

definition add_new_service :: "env \<Rightarrow> server \<Rightarrow> uuid_arg \<Rightarrow> (error + unit) \<times> server" where
  "add_new_service ev s service_uuid =
     seq (await_setup ev s) (\<lambda>_ s.
       let service_uuid = lower (str service_uuid)
       in seq (get_app s) (\<lambda>a s.
          seq (lift (app_add_service a service_uuid) s) (\<lambda>(gatt_service, a') s.
            let s = s\<lparr>app := Some a'\<rparr>
            in seq (get_bus s) (\<lambda>_ s.
               seq (get_app s) (\<lambda>a s.
               seq (native ev (GetRemoteObject (destination a) (gs_path gatt_service)) s) (\<lambda>_ s.
               seq (native ev (GetAll (gs_path gatt_service) GATT_SERVICE_INTERFACE) s) (\<lambda>_ s.
                 let service = \<lparr>bs_uuid = gs_uuid gatt_service, bs_path = gs_path gatt_service,
                                bs_characteristics = []\<rparr>
                 in (Inr (),
                     s\<lparr>services := AList.update service_uuid service (services s)\<rparr>))))))))"

definition add_new_characteristic ::
  "env \<Rightarrow> server \<Rightarrow> uuid_arg \<Rightarrow> uuid_arg \<Rightarrow> nat \<Rightarrow> bytes option \<Rightarrow> int \<Rightarrow>
   (error + unit) \<times> server" where
  "add_new_characteristic ev s service_uuid char_uuid properties val permissions =
     seq (await_setup ev s) (\<lambda>_ s.
       let flags = from_bless ev properties;
           service_uuid = lower (str service_uuid);
           char_uuid = lower (str char_uuid);
           val = (case val of None \<Rightarrow> [] | Some v \<Rightarrow> v)
       in seq (get_app s) (\<lambda>a s.
          seq (lift (app_add_characteristic a service_uuid char_uuid val flags) s)
            (\<lambda>(gatt_char, a') s.
            let s = s\<lparr>app := Some a'\<rparr>
            in seq (get_bus s) (\<lambda>_ s.
               seq (get_app s) (\<lambda>a s.
               seq (native ev (GetRemoteObject (destination a) (gc_path gatt_char)) s) (\<lambda>_ s.
               seq (native ev (GetAll (gc_path gatt_char) GATT_CHARACTERISTIC_INTERFACE) s)
                 (\<lambda>_ s.
                 let char = \<lparr>bc_uuid = gc_uuid gatt_char, bc_path = gc_path gatt_char,
                             bc_service_uuid = service_uuid,
                             bc_obj_value = gc_value gatt_char, bc_value = None\<rparr>
                 in (case map_of (services s) service_uuid of
                       None \<Rightarrow> (Inl (KeyError service_uuid), s)
                     | Some sv \<Rightarrow>
                         (Inr (),
                          s\<lparr>services :=
                              AList.update service_uuid
                                (sv\<lparr>bs_characteristics := bs_characteristics sv @ [char]\<rparr>)
                                (services s)\<rparr>)))))))))"

subsection \<open>Pushing a value: \<^verbatim>\<open>update_value\<close>\<close>

text \<open>
  Modelled from the spec: the setter of \<^verbatim>\<open>BlueZGattCharacteristic.value\<close> is missing.
  "notify(characteristicHandle, value): pushes a new value to the native stack so
  subscribed centrals receive a notification. Silently becomes a no-op (but succeeds) if
  the characteristic is not currently notifiable or has zero subscribers." The value is
  stored; the signal is emitted only to subscribers of a notifiable characteristic.
\<close>

definition set_value ::
  "gatt_characteristic \<Rightarrow> bytes \<Rightarrow> gatt_characteristic \<times> native_call list" where
  "set_value c v =
     (c\<lparr>gc_value := v\<rparr>,
      if Notify \<in> set (gc_flags c) \<and> gc_subscribers c \<noteq> []
      then [PropertiesChanged (gc_path c) v] else [])"

text \<open>
  \<^verbatim>\<open>update_value(service_uuid, char_uuid)\<close>, statement by statement: the dictionary is
  indexed (a missing key raises), the characteristic is looked up (\<^verbatim>\<open>None\<close> returns
  \<^verbatim>\<open>False\<close>), its \<^verbatim>\<open>value\<close> is read under a bare \<^verbatim>\<open>except\<close> (an unset attribute returns
  \<^verbatim>\<open>False\<close>), the first service of the application with that UUID is taken (\<^verbatim>\<open>next\<close> of
  an empty iterator raises), and the value is assigned to its characteristic. There is no
  \<^verbatim>\<open>return\<close> after the assignment: the method ends and returns \<^verbatim>\<open>None\<close>.
\<close>

definition update_value :: "server \<Rightarrow> string \<Rightarrow> string \<Rightarrow> (error + pyval) \<times> server" where
  "update_value s service_uuid char_uuid =
     (case map_of (services s) service_uuid of
        None \<Rightarrow> (Inl (KeyError service_uuid), s)
      | Some bless_service \<Rightarrow>
          (case get_characteristic bless_service char_uuid of
             None \<Rightarrow> (Inr (PyBool False), s)
           | Some bless_char \<Rightarrow>
               (case bc_value bless_char of
                  None \<Rightarrow> (Inr (PyBool False), s)
                | Some cur_value \<Rightarrow>
                    seq (get_app s) (\<lambda>a s.
                      (case find_index_of (\<lambda>sv. gs_uuid sv = service_uuid) (app_services a) of
                         None \<Rightarrow> (Inl StopIteration, s)
                       | Some i \<Rightarrow>
                           (let service = app_services a ! i
                            in case find_index_of (\<lambda>c. gc_uuid c = char_uuid)
                                      (gs_characteristics service) of
                                 None \<Rightarrow> (Inl (AttributeError ''value''), s)
                               | Some j \<Rightarrow>
                                   (let (c', emitted) =
                                          set_value (gs_characteristics service ! j) cur_value;
                                        service' =
                                          service\<lparr>gs_characteristics :=
                                            (gs_characteristics service)[j := c']\<rparr>
                                    in (Inr PyNone,
                                        s\<lparr>app :=
                                            Some (a\<lparr>app_services :=
                                                      (app_services a)[i := service']\<rparr>),
                                          trace := trace s @ emitted\<rparr>))))))))"

subsection \<open>The request router: \<^verbatim>\<open>read\<close> and \<^verbatim>\<open>write\<close>\<close>

text \<open>
  The two handlers of the application. A read handler sees the server and the UUID and
  returns bytes or raises; a write handler gets the UUID and the payload and may change
  the server (for instance by storing the payload).
\<close>

record handlers =
  read_request_func :: "(server \<Rightarrow> string \<Rightarrow> error + bytes) option"
  write_request_func :: "(string \<Rightarrow> bytes \<Rightarrow> server \<Rightarrow> (error + unit) \<times> server) option"

text \<open>
  Modelled from the spec: the lookup of \<^verbatim>\<open>BaseBlessServer\<close> by characteristic UUID is
  missing. "Router looks up the characteristic by UUID across all registered services; if
  a UUID collides across services, the lookup is defined to select the first match
  discovered via the server's service-then-characteristic iteration order."
\<close>

definition find_characteristic :: "server \<Rightarrow> string \<Rightarrow> bleak_characteristic option" where
  "find_characteristic s uuid =
     find (\<lambda>c. bc_uuid c = uuid) (concat (map (\<lambda>kv. bs_characteristics (snd kv)) (services s)))"

text \<open>
  Modelled from the spec: \<^verbatim>\<open>read_request\<close> is a method of \<^verbatim>\<open>BaseBlessServer\<close>, which is
  missing. "On inbound read: router looks up the characteristic by UUID across all
  registered services. Invokes the read-handler, receives a byte sequence, and returns
  it." An unknown UUID is \<open>UnknownCharacteristic\<close>; calling a handler that was never set is
  Python's \<^verbatim>\<open>TypeError\<close>; an exception of the handler is passed on.
\<close>

definition read_request :: "handlers \<Rightarrow> server \<Rightarrow> string \<Rightarrow> error + bytes" where
  "read_request hs s uuid =
     (case find_characteristic s uuid of
        None \<Rightarrow> Inl UnknownCharacteristic
      | Some _ \<Rightarrow>
          (case read_request_func hs of
             None \<Rightarrow> Inl (TypeError ''NoneType object is not callable'')
           | Some h \<Rightarrow> h s uuid))"

text \<open>
  Modelled from the spec: \<^verbatim>\<open>write_request\<close> is a method of \<^verbatim>\<open>BaseBlessServer\<close>, which is
  missing. "On inbound write: router receives the raw bytes, invokes the write-handler
  with (UUID, bytes); the handler is responsible for calling back into the facade to
  persist the new value (the router does not auto-commit the value)."
\<close>

definition write_request ::
  "handlers \<Rightarrow> server \<Rightarrow> string \<Rightarrow> bytes \<Rightarrow> (error + unit) \<times> server" where
  "write_request hs s uuid val =
     (case find_characteristic s uuid of
        None \<Rightarrow> (Inl UnknownCharacteristic, s)
      | Some _ \<Rightarrow>
          (case write_request_func hs of
             None \<Rightarrow> (Inl (TypeError ''NoneType object is not callable''), s)
           | Some h \<Rightarrow> h uuid val s))"

text \<open>
  The two hooks of the server, \<^verbatim>\<open>read\<close> and \<^verbatim>\<open>write\<close> (a name taken in Isabelle): each
  hands the characteristic's UUID, and the payload as it came, to the router.
\<close>

definition read :: "handlers \<Rightarrow> server \<Rightarrow> gatt_characteristic \<Rightarrow> error + bytes" where
  "read hs s char = read_request hs s (gc_uuid char)"

definition write_hook ::
  "handlers \<Rightarrow> server \<Rightarrow> gatt_characteristic \<Rightarrow> bytes \<Rightarrow> (error + unit) \<times> server" where
  "write_hook hs s char val = write_request hs s (gc_uuid char) val"

subsection \<open>Advertising and connection state\<close>

text \<open>
  The methods of the application that the server calls with \<^verbatim>\<open>self.adapter\<close>. Each takes
  \<^verbatim>\<open>self.app\<close> first and \<^verbatim>\<open>self.adapter\<close> as its argument, as the server's call does.
\<close>

text \<open>
  Modelled from the spec: \<^verbatim>\<open>BlueZGattApplication.register\<close> is missing. The application
  object graph is registered with the adapter (one native call).
\<close>

definition app_register :: "env \<Rightarrow> server \<Rightarrow> (error + unit) \<times> server" where
  "app_register ev s =
     seq (get_app s) (\<lambda>a s.
     seq (get_adapter_attr s) (\<lambda>_ s.
     seq (native ev Register s) (\<lambda>_ s. (Inr (), s\<lparr>app := Some (a\<lparr>registered := True\<rparr>)\<rparr>))))"

text \<open>
  Modelled from the spec: \<^verbatim>\<open>BlueZGattApplication.unregister\<close> is missing. "stop: stops
  advertising and unregisters the native application object."
\<close>

definition app_unregister :: "env \<Rightarrow> server \<Rightarrow> (error + unit) \<times> server" where
  "app_unregister ev s =
     seq (get_app s) (\<lambda>a s.
     seq (get_adapter_attr s) (\<lambda>_ s.
     seq (native ev Unregister s) (\<lambda>_ s. (Inr (), s\<lparr>app := Some (a\<lparr>registered := False\<rparr>)\<rparr>))))"

text \<open>
  Modelled from the spec: \<^verbatim>\<open>BlueZGattApplication.start_advertising\<close> is missing.
  "startAdvertising / stopAdvertising: must be callable multiple times without error when
  already in the target state (idempotent no-op), except that startAdvertising before any
  service is added is a configuration error (NothingToAdvertise)."
\<close>

definition app_start_advertising :: "env \<Rightarrow> server \<Rightarrow> (error + unit) \<times> server" where
  "app_start_advertising ev s =
     seq (get_app s) (\<lambda>a s.
     seq (get_adapter_attr s) (\<lambda>_ s.
       if app_services a = [] then (Inl NothingToAdvertise, s)
       else if advertising a then (Inr (), s)
       else seq (native ev StartAdvertising s)
              (\<lambda>_ s. (Inr (), s\<lparr>app := Some (a\<lparr>advertising := True\<rparr>)\<rparr>))))"

text \<open>
  Modelled from the spec: \<^verbatim>\<open>BlueZGattApplication.stop_advertising\<close> is missing; the same
  sentence of the spec: a no-op when the application is not advertising.
\<close>

definition app_stop_advertising :: "env \<Rightarrow> server \<Rightarrow> (error + unit) \<times> server" where
  "app_stop_advertising ev s =
     seq (get_app s) (\<lambda>a s.
     seq (get_adapter_attr s) (\<lambda>_ s.
       if advertising a
       then seq (native ev StopAdvertising s)
              (\<lambda>_ s. (Inr (), s\<lparr>app := Some (a\<lparr>advertising := False\<rparr>)\<rparr>))
       else (Inr (), s)))"

text \<open>
  Modelled from the spec: \<^verbatim>\<open>BlueZGattApplication.is_connected\<close> is missing. "isConnected
  returns true iff at least one central currently holds an active connection to this
  peripheral app", a point-in-time query against native state.
\<close>

definition app_is_connected :: "env \<Rightarrow> server \<Rightarrow> (error + bool) \<times> server" where
  "app_is_connected ev s =
     seq (get_app s) (\<lambda>a s.
     seq (native ev QueryConnected s) (\<lambda>_ s. (Inr (central_connected ev), s)))"

text \<open>
  Modelled from the spec: \<^verbatim>\<open>BlueZGattApplication.is_advertising\<close> is missing. It answers
  whether the application is in the state \<^verbatim>\<open>Advertising\<close>.
\<close>

definition app_is_advertising :: "server \<Rightarrow> (error + bool) \<times> server" where
  "app_is_advertising s =
     seq (get_app s) (\<lambda>a s.
     seq (get_adapter_attr s) (\<lambda>_ s. (Inr (advertising a), s)))"

text \<open>The four methods of the server, as written.\<close>

definition start :: "env \<Rightarrow> server \<Rightarrow> (error + bool) \<times> server" where
  "start ev s =
     seq (await_setup ev s) (\<lambda>_ s.
     seq (get_bus s) (\<lambda>_ s.
     seq (get_app s) (\<lambda>a s.
     seq (native ev (ExportObject (destination a)) s) (\<lambda>_ s.
     seq (get_bus s) (\<lambda>_ s.
     seq (get_app s) (\<lambda>a s.
     seq (native ev (RequestBusName (destination a)) s) (\<lambda>_ s.
     seq (app_register ev s) (\<lambda>_ s.
     seq (app_start_advertising ev s) (\<lambda>_ s. (Inr True, s))))))))))"

definition stop :: "env \<Rightarrow> server \<Rightarrow> (error + bool) \<times> server" where
  "stop ev s =
     seq (app_stop_advertising ev s) (\<lambda>_ s.
     seq (app_unregister ev s) (\<lambda>_ s. (Inr True, s)))"

definition is_connected :: "env \<Rightarrow> server \<Rightarrow> (error + bool) \<times> server" where
  "is_connected ev s = app_is_connected ev s"

definition is_advertising :: "env \<Rightarrow> server \<Rightarrow> (error + bool) \<times> server" where
  "is_advertising ev s = seq (await_setup ev s) (\<lambda>_ s. app_is_advertising s)"

subsection \<open>Best-effort operations: \<^verbatim>\<open>disconnect\<close> and the two callbacks\<close>

text \<open>
  Each wraps one call on the bus in \<^verbatim>\<open>try\<close> / \<^verbatim>\<open>except Exception\<close>: whatever is raised
  inside, the missing attribute \<^verbatim>\<open>bus\<close> included, becomes the result \<^verbatim>\<open>False\<close>.
\<close>

definition device_path :: "server \<Rightarrow> string \<Rightarrow> string" where
  "device_path s device_mac =
     adapter_path s @ ''dev_'' @ replace_char CHR '':'' CHR ''_'' device_mac"

definition disconnect :: "env \<Rightarrow> server \<Rightarrow> string \<Rightarrow> (error + bool) \<times> server" where
  "disconnect ev s device_mac =
     (case seq (get_bus s) (\<lambda>_ s'.
             native ev
               (CallRemote (device_path s device_mac) ''Disconnect'' DEVICE_INTERFACE
                  BLUEZ_SERVICE) s') of
        (Inl e, s') \<Rightarrow> (Inr False, s')
      | (Inr _, s') \<Rightarrow> (Inr True, s'))"

definition set_connected_callback :: "env \<Rightarrow> server \<Rightarrow> pyobj \<Rightarrow> (error + bool) \<times> server" where
  "set_connected_callback ev s callback_function =
     (if \<not> callable callback_function then (Inr False, s)
      else
        (let s = s\<lparr>connected_callback := callback_function\<rparr>
         in case seq (get_bus s) (\<lambda>_ s.
                   native ev (AddMatch (connected_callback s) OBJECT_MANAGER ''InterfacesAdded'') s) of
              (Inl e, s') \<Rightarrow> (Inr False, s')
            | (Inr _, s') \<Rightarrow> (Inr True, s')))"

definition set_disconnected_callback ::
  "env \<Rightarrow> server \<Rightarrow> pyobj \<Rightarrow> (error + bool) \<times> server" where
  "set_disconnected_callback ev s callback_function =
     (if \<not> callable callback_function then (Inr False, s)
      else
        (let s = s\<lparr>disconnected_callback := callback_function\<rparr>
         in case seq (get_bus s) (\<lambda>_ s.
                   native ev
                     (AddMatch (disconnected_callback s) OBJECT_MANAGER ''InterfacesRemoved'') s) of
              (Inl e, s') \<Rightarrow> (Inr False, s')
            | (Inr _, s') \<Rightarrow> (Inr True, s')))"

subsection \<open>Observing the application's object graph\<close>

text \<open>
  The value the application holds for a characteristic, found by service UUID and
  characteristic UUID; \<open>None\<close> when there is no such characteristic.
\<close>

definition registered_value :: "server \<Rightarrow> string \<Rightarrow> string \<Rightarrow> bytes option" where
  "registered_value s service_uuid char_uuid =
     (case app s of
        None \<Rightarrow> None
      | Some a \<Rightarrow>
          (case find (\<lambda>g. gs_uuid g = service_uuid) (app_services a) of
             None \<Rightarrow> None
           | Some g \<Rightarrow> map_option gc_value (gatt_get_characteristic g char_uuid)))"






text \<open>The attribute \<^verbatim>\<open>value\<close> of the characteristic object a UUID is routed to.\<close>

definition stored_value :: "server \<Rightarrow> string \<Rightarrow> bytes option" where
  "stored_value s uuid =
     (case find_characteristic s uuid of None \<Rightarrow> None | Some c \<Rightarrow> bc_value c)"

section \<open>Invariants and concrete servers\<close>

text \<open>
  What holds of every server the methods of the class can reach from the constructor: as
  soon as the dictionary \<open>services\<close> has a key, setup is done and the application has a
  service under each key.
\<close>

definition server_inv :: "server \<Rightarrow> bool" where
  "server_inv s =
     (services s = [] \<or>
      (setup_task s = Done \<and>
       (case app s of
          None \<Rightarrow> False
        | Some a \<Rightarrow> set (map fst (services s)) \<subseteq> set (map gs_uuid (app_services a)))))"

text \<open>A string in canonical form has no uppercase letter.\<close>

definition canonical :: "string \<Rightarrow> bool" where
  "canonical x = list_all (\<lambda>c. \<not> is_upper c) x"

definition canonical_server :: "server \<Rightarrow> bool" where
  "canonical_server s =
     (list_all
        (\<lambda>kv. canonical (fst kv) \<and> canonical (bs_uuid (snd kv)) \<and>
              list_all (\<lambda>c. canonical (bc_uuid c) \<and> canonical (bc_service_uuid c))
                (bs_characteristics (snd kv)))
        (services s) \<and>
      (case app s of
         None \<Rightarrow> True
       | Some a \<Rightarrow>
           list_all
             (\<lambda>g. canonical (gs_uuid g) \<and>
                  list_all (\<lambda>c. canonical (gc_uuid c)) (gs_characteristics g))
             (app_services a)))"

text \<open>
  Two environments: one where every native call succeeds, one where every native call
  fails. In both, \<^verbatim>\<open>Flags.from_bless\<close> answers read, write and notify.
\<close>

definition ev_ok :: env where
  "ev_ok =
     \<lparr>native_outcome = (\<lambda>_. None), central_connected = False,
      from_bless = (\<lambda>_. [Read, Write, Notify])\<rparr>"

definition ev_down :: env where
  "ev_down =
     \<lparr>native_outcome = (\<lambda>_. Some (DBusError ''org.freedesktop.DBus.Error.NoReply'')),
      central_connected = False,
      from_bless = (\<lambda>_. [Read, Write, Notify])\<rparr>"

text \<open>
  A server just constructed; the same server after the heart-rate service was added under
  an uppercase UUID string; after the measurement characteristic was added with no initial
  value; and after the application assigned \<^verbatim>\<open>value = bytearray([1])\<close> to that
  characteristic object.
\<close>

definition hr_uuid :: string where
  "hr_uuid = ''0000180d-0000-1000-8000-00805f9b34fb''"

definition hr_uuid_upper :: string where
  "hr_uuid_upper = ''0000180D-0000-1000-8000-00805F9B34FB''"

definition hrm_uuid :: string where
  "hrm_uuid = ''00002a37-0000-1000-8000-00805f9b34fb''"

definition hrm_uuid_upper :: string where
  "hrm_uuid_upper = ''00002A37-0000-1000-8000-00805F9B34FB''"

definition srv_new :: server where
  "srv_new = init ''Test Srv'' None"

definition test_app :: "gatt_service list \<Rightarrow> application" where
  "test_app svs =
     \<lparr>app_name = ''TestSrv'', destination = ''org.bluez.TestSrv'', app_services = svs,
      registered = False, advertising = False\<rparr>"

definition srv_service :: server where
  "srv_service =
     \<lparr>name = ''Test Srv'', adapter_path = ''/org/bluez/hci0/'',
      services =
        [(hr_uuid, \<lparr>bs_uuid = hr_uuid, bs_path = ServiceHandle 1, bs_characteristics = []\<rparr>)],
      setup_task = Done, bus = Some SystemBus,
      app = Some (test_app
              [\<lparr>gs_uuid = hr_uuid, gs_path = ServiceHandle 1, gs_characteristics = []\<rparr>]),
      adapter = Some Adapter,
      connected_callback = DefaultLambda, disconnected_callback = DefaultLambda,
      trace =
        [Connect, GetAdapter,
         GetRemoteObject ''org.bluez.TestSrv'' (ServiceHandle 1),
         GetAll (ServiceHandle 1) ''org.bluez.GattService1'']\<rparr>"

definition hrm_gatt :: gatt_characteristic where
  "hrm_gatt =
     \<lparr>gc_uuid = hrm_uuid, gc_path = CharacteristicHandle 1 1, gc_value = [],
      gc_flags = [Read, Write, Notify], gc_subscribers = []\<rparr>"

definition hrm_bleak :: "bytes option \<Rightarrow> bleak_characteristic" where
  "hrm_bleak v =
     \<lparr>bc_uuid = hrm_uuid, bc_path = CharacteristicHandle 1 1, bc_service_uuid = hr_uuid,
      bc_obj_value = [], bc_value = v\<rparr>"

definition srv_with :: "bytes option \<Rightarrow> server" where
  "srv_with v =
     \<lparr>name = ''Test Srv'', adapter_path = ''/org/bluez/hci0/'',
      services =
        [(hr_uuid,
          \<lparr>bs_uuid = hr_uuid, bs_path = ServiceHandle 1, bs_characteristics = [hrm_bleak v]\<rparr>)],
      setup_task = Done, bus = Some SystemBus,
      app = Some (test_app
              [\<lparr>gs_uuid = hr_uuid, gs_path = ServiceHandle 1,
                gs_characteristics = [hrm_gatt]\<rparr>]),
      adapter = Some Adapter,
      connected_callback = DefaultLambda, disconnected_callback = DefaultLambda,
      trace =
        [Connect, GetAdapter,
         GetRemoteObject ''org.bluez.TestSrv'' (ServiceHandle 1),
         GetAll (ServiceHandle 1) ''org.bluez.GattService1'',
         GetRemoteObject ''org.bluez.TestSrv'' (CharacteristicHandle 1 1),
         GetAll (CharacteristicHandle 1 1) ''org.bluez.GattCharacteristic1'']\<rparr>"

definition srv_char :: server where
  "srv_char = srv_with None"

definition srv_valued :: server where
  "srv_valued = srv_with (Some [1])"

text \<open>
  Two handlers an application may register: a read handler that answers \<^verbatim>\<open>b"\x07"\<close>
  whatever is stored, and a write handler that appends the payload to the stored value
  of every characteristic with the UUID (\<^verbatim>\<open>c.value = c.value + value\<close>).
\<close>

definition read_seven :: "server \<Rightarrow> string \<Rightarrow> error + bytes" where
  "read_seven s uuid = Inr [7]"

definition append_payload :: "string \<Rightarrow> bytes \<Rightarrow> server \<Rightarrow> (error + unit) \<times> server" where
  "append_payload uuid val s =
     (Inr (),
      s\<lparr>services :=
          map (\<lambda>kv.
                (fst kv,
                 (snd kv)\<lparr>bs_characteristics :=
                   map (\<lambda>c. if bc_uuid c = uuid
                            then c\<lparr>bc_value :=
                                   Some ((case bc_value c of None \<Rightarrow> [] | Some v \<Rightarrow> v) @ val)\<rparr>
                            else c)
                     (bs_characteristics (snd kv))\<rparr>))
            (services s)\<rparr>)"

definition test_handlers :: handlers where
  "test_handlers =
     \<lparr>read_request_func = Some read_seven, write_request_func = Some append_payload\<rparr>"

section \<open>Properties\<close>

subsection \<open>Evaluating the model\<close>

lemmas op_defs =
  add_new_service_def add_new_characteristic_def await_setup_def setup_coro_def seq_def
  lift_def native_def get_app_def get_bus_def get_adapter_attr_def app_add_service_def
  app_add_characteristic_def new_application_def remove_char_def str_def
  GATT_SERVICE_INTERFACE_def GATT_CHARACTERISTIC_INTERFACE_def Let_def

lemmas input_defs =
  srv_new_def init_def srv_service_def srv_with_def srv_char_def srv_valued_def test_app_def
  hrm_gatt_def hrm_bleak_def ev_ok_def ev_down_def

lemma lower_hr_uuid: "lower hr_uuid_upper = hr_uuid"
  unfolding hr_uuid_upper_def hr_uuid_def by code_simp

lemma lower_hrm_uuid: "lower hrm_uuid_upper = hrm_uuid"
  unfolding hrm_uuid_upper_def hrm_uuid_def by code_simp






lemma srv_char_reached:
  "add_new_characteristic ev_ok srv_service (UStr hr_uuid_upper) (UStr hrm_uuid_upper) 26 None 3 =
   (Inr (), srv_char)"
  by (simp add: op_defs input_defs lower_hr_uuid lower_hrm_uuid)

subsection \<open>Lists and the application's object graph\<close>

lemma find_index_of_Some:
  "find_index_of p xs = Some i \<Longrightarrow> i < length xs \<and> p (xs ! i)"
  by (induction xs arbitrary: i) (auto split: if_splits)

lemma find_index_of_None: "find_index_of p xs = None \<longleftrightarrow> (\<forall>x \<in> set xs. \<not> p x)"
  by (induction xs) (auto split: if_splits)

lemma app_add_service_uuids:
  "app_add_service a u = Inr (sv, a') \<Longrightarrow>
   gs_uuid ` set (app_services a') = insert u (gs_uuid ` set (app_services a)) \<and> gs_uuid sv = u"
  by (auto simp: app_add_service_def Let_def split: if_splits)

lemma app_add_characteristic_uuids:
  assumes "app_add_characteristic a su cu v f = Inr (ch, a')"
  shows "gs_uuid ` set (app_services a') = gs_uuid ` set (app_services a)"
proof -
  have "map gs_uuid (app_services a') = map gs_uuid (app_services a)"
    using assms
    by (auto simp: app_add_characteristic_def Let_def map_update list_update_same_conv
        dest!: find_index_of_Some split: option.splits if_splits)
  then have "set (map gs_uuid (app_services a')) = set (map gs_uuid (app_services a))"
    by simp
  then show ?thesis by simp
qed

lemma uuids_list_update:
  "i < length xs \<Longrightarrow> gs_uuid y = gs_uuid (xs ! i) \<Longrightarrow>
   map gs_uuid (xs[i := y]) = map gs_uuid xs"
  by (simp add: map_update list_update_same_conv)

lemma find_first_update:
  "find_index_of p xs = Some i \<Longrightarrow> p y \<Longrightarrow> find p (xs[i := y]) = Some y"
  by (induction xs arbitrary: i) (auto split: if_splits)

lemma find_append_new: "\<forall>x \<in> set xs. \<not> p x \<Longrightarrow> p y \<Longrightarrow> find p (xs @ [y]) = Some y"
  by (induction xs) auto


text \<open>After a characteristic was added, the application finds it, with the value given.\<close>

lemma app_add_characteristic_value:
  assumes "app_add_characteristic a su cu v f = Inr (ch, a')"
  shows "(case find (\<lambda>g. gs_uuid g = su) (app_services a') of
            None \<Rightarrow> None
          | Some g \<Rightarrow> map_option gc_value (gatt_get_characteristic g cu)) = Some v"
proof -
  from assms obtain i where
    i: "find_index_of (\<lambda>sv. gs_uuid sv = su) (app_services a) = Some i"
    by (auto simp: app_add_characteristic_def split: option.splits)
  define sv where "sv = app_services a ! i"
  define sv' where "sv' = sv\<lparr>gs_characteristics := gs_characteristics sv @ [ch]\<rparr>"
  from i have su: "gs_uuid sv = su"
    using find_index_of_Some [OF i] by (simp add: sv_def)
  from assms i have fresh: "\<forall>c \<in> set (gs_characteristics sv). gc_uuid c \<noteq> cu"
    and ch: "gc_uuid ch = cu" "gc_value ch = v"
    and a': "app_services a' = (app_services a)[i := sv']"
    by (auto simp: app_add_characteristic_def Let_def sv_def sv'_def split: if_splits)
  have "find (\<lambda>g. gs_uuid g = su) (app_services a') = Some sv'"
    unfolding a' using i su by (intro find_first_update) (simp_all add: sv'_def)
  moreover have "gatt_get_characteristic sv' cu = Some ch"
    unfolding gatt_get_characteristic_def sv'_def using fresh ch
    by (simp add: find_append_new)
  ultimately show ?thesis
    using ch by simp
qed

subsection \<open>Awaiting the setup task\<close>

lemma await_setup_Done: "setup_task s = Done \<Longrightarrow> await_setup ev s = (Inr (), s)"
  by (simp add: await_setup_def)

lemma await_setup_Inr:
  "await_setup ev s = (Inr u, s') \<Longrightarrow> setup_task s' = Done \<and> services s' = services s"
  by (auto simp: await_setup_def setup_coro_def seq_def native_def Let_def
      split: task.splits option.splits prod.splits sum.splits)

lemma server_inv_init: "server_inv (init nm p)"
  by (simp add: server_inv_def init_def)

lemma server_inv_await: "server_inv s \<Longrightarrow> server_inv (snd (await_setup ev s))"
  by (auto simp: server_inv_def await_setup_def setup_coro_def seq_def native_def Let_def
      split: task.splits option.splits)




subsection \<open>The invariant is kept by registration\<close>

lemma server_inv_add_new_service:
  assumes "server_inv s"
  shows "server_inv (snd (add_new_service ev s u))"
proof (cases "await_setup ev s")
  case (Pair r s1)
  have i1: "server_inv s1"
    using server_inv_await [OF assms, of ev] Pair by simp
  show ?thesis
  proof (cases r)
    case (Inl e)
    then show ?thesis
      using Pair i1 by (simp add: add_new_service_def seq_def)
  next
    case (Inr x)
    with Pair have d: "setup_task s1 = Done"
      using await_setup_Inr by blast
    show ?thesis
      using Pair Inr i1 d
      by (auto simp: add_new_service_def seq_def get_app_def get_bus_def lift_def native_def
          Let_def server_inv_def dom_update
          dest!: app_add_service_uuids split: option.splits sum.splits)
  qed
qed

lemma server_inv_add_new_characteristic:
  assumes "server_inv s"
  shows "server_inv (snd (add_new_characteristic ev s su cu p v perm))"
proof (cases "await_setup ev s")
  case (Pair r s1)
  have i1: "server_inv s1"
    using server_inv_await [OF assms, of ev] Pair by simp
  show ?thesis
  proof (cases r)
    case (Inl e)
    then show ?thesis
      using Pair i1 by (simp add: add_new_characteristic_def seq_def)
  next
    case (Inr x)
    with Pair have d: "setup_task s1 = Done"
      using await_setup_Inr by blast
    show ?thesis
      using Pair Inr i1 d
      by (auto simp: add_new_characteristic_def seq_def get_app_def get_bus_def lift_def
          native_def Let_def server_inv_def dom_update
          dest!: app_add_characteristic_uuids map_of_SomeD split: option.splits sum.splits)
  qed
qed

text \<open>\<open>update_value\<close> leaves the dictionary, the setup task and the UUIDs of the application.\<close>

lemma update_value_frame:
  "services (snd (update_value s su cu)) = services s"
  "setup_task (snd (update_value s su cu)) = setup_task s"
  by (simp_all add: update_value_def seq_def get_app_def Let_def
      split: option.splits prod.splits)

lemma update_value_app:
  "map_option (\<lambda>a. map gs_uuid (app_services a)) (app (snd (update_value s su cu))) =
   map_option (\<lambda>a. map gs_uuid (app_services a)) (app s)"
proof (cases "app s")
  case None
  then show ?thesis
    by (simp add: update_value_def seq_def get_app_def Let_def
        split: option.splits prod.splits)
next
  case (Some a)
  have "\<And>i y. find_index_of (\<lambda>sv. gs_uuid sv = su) (app_services a) = Some i \<Longrightarrow>
      gs_uuid y = gs_uuid (app_services a ! i) \<Longrightarrow>
      map gs_uuid ((app_services a)[i := y]) = map gs_uuid (app_services a)"
    using find_index_of_Some uuids_list_update by blast
  with Some show ?thesis
    by (simp add: update_value_def seq_def get_app_def Let_def
        split: option.splits prod.splits)
qed

lemma server_inv_update_value:
  assumes "server_inv s"
  shows "server_inv (snd (update_value s su cu))"
proof (cases "services s = []")
  case True
  then show ?thesis
    by (simp add: server_inv_def update_value_frame)
next
  case False
  with assms obtain a where a: "app s = Some a" "setup_task s = Done"
    "set (map fst (services s)) \<subseteq> set (map gs_uuid (app_services a))"
    by (auto simp: server_inv_def split: option.splits)
  from update_value_app [of s su cu] a(1) obtain a' where
    a': "app (snd (update_value s su cu)) = Some a'"
    "map gs_uuid (app_services a') = map gs_uuid (app_services a)"
    by (cases "app (snd (update_value s su cu))") auto
  show ?thesis
    using a a' by (simp add: server_inv_def update_value_frame)
qed

lemma server_inv_best_effort:
  assumes "server_inv s"
  shows "server_inv (snd (disconnect ev s mac))"
    and "server_inv (snd (set_connected_callback ev s f))"
    and "server_inv (snd (set_disconnected_callback ev s f))"
  using assms
  by (simp_all add: server_inv_def disconnect_def set_connected_callback_def
      set_disconnected_callback_def seq_def get_bus_def native_def Let_def
      split: option.splits)

text \<open>The methods that advertise and query keep the invariant as well.\<close>

lemma seq_inv:
  assumes "server_inv (snd m)"
    and "\<And>x s'. server_inv s' \<Longrightarrow> server_inv (snd (f x s'))"
  shows "server_inv (snd (seq m f))"
  using assms by (cases m) (auto simp: seq_def split: sum.splits)

lemma server_inv_native: "server_inv s \<Longrightarrow> server_inv (snd (native ev c s))"
  by (simp add: native_def server_inv_def split: option.splits)

lemma server_inv_get:
  "server_inv s \<Longrightarrow> server_inv (snd (get_app s))"
  "server_inv s \<Longrightarrow> server_inv (snd (get_bus s))"
  by (simp_all add: get_app_def get_bus_def)

lemma server_inv_app_methods:
  assumes "server_inv s"
  shows "server_inv (snd (app_register ev s))"
    and "server_inv (snd (app_unregister ev s))"
    and "server_inv (snd (app_start_advertising ev s))"
    and "server_inv (snd (app_stop_advertising ev s))"
    and "server_inv (snd (app_is_connected ev s))"
    and "server_inv (snd (app_is_advertising s))"
  using assms
  by (auto simp: server_inv_def app_register_def app_unregister_def
      app_start_advertising_def app_stop_advertising_def app_is_connected_def
      app_is_advertising_def seq_def get_app_def get_adapter_attr_def native_def
      split: option.splits)

lemma server_inv_start: "server_inv s \<Longrightarrow> server_inv (snd (start ev s))"
  unfolding start_def
  by (intro seq_inv server_inv_app_methods server_inv_await server_inv_native server_inv_get)
    simp_all

lemma server_inv_stop: "server_inv s \<Longrightarrow> server_inv (snd (stop ev s))"
  unfolding stop_def by (intro seq_inv server_inv_app_methods) simp_all

lemma server_inv_is_connected: "server_inv s \<Longrightarrow> server_inv (snd (is_connected ev s))"
  unfolding is_connected_def by (rule server_inv_app_methods)

lemma server_inv_is_advertising: "server_inv s \<Longrightarrow> server_inv (snd (is_advertising ev s))"
  unfolding is_advertising_def
  by (intro seq_inv server_inv_app_methods server_inv_await) simp_all

subsection \<open>Adding a service twice\<close>

text \<open>
  C2. In a server that satisfies the invariant and has a service registered under the
  canonical form of the given UUID, \<open>add_new_service\<close> with that UUID fails with
  \<open>DuplicateService\<close>, and the server (its service dictionary included) is the one before
  the call. The rejection is the application's, whose \<^verbatim>\<open>add_service\<close> is modelled from the
  specification; \<^verbatim>\<open>add_new_service\<close> itself has no check and lets the exception through
  before it touches the dictionary.
\<close>

theorem add_new_service_duplicate:
  assumes "server_inv s" and "lower (str u) \<in> fst ` set (services s)"
  shows "add_new_service ev s u = (Inl DuplicateService, s)"
proof -
  from assms(2) have ne: "services s \<noteq> []"
    by auto
  with assms(1) have d: "setup_task s = Done"
    by (simp add: server_inv_def)
  from assms(1) ne obtain a where a: "app s = Some a"
    and sub: "set (map fst (services s)) \<subseteq> set (map gs_uuid (app_services a))"
    by (auto simp: server_inv_def split: option.splits)
  from sub assms(2) have m: "lower (str u) \<in> set (map gs_uuid (app_services a))"
    by auto
  show ?thesis
    using d a m
    by (simp add: add_new_service_def await_setup_def seq_def get_app_def lift_def
        app_add_service_def)
qed

theorem add_new_service_duplicate_witness:
  "server_inv srv_service \<and>
   lower (str (UStr hr_uuid_upper)) \<in> fst ` set (services srv_service) \<and>
   add_new_service ev_ok srv_service (UStr hr_uuid_upper) = (Inl DuplicateService, srv_service)"
proof -
  have i: "server_inv srv_service"
    by (simp add: server_inv_def srv_service_def test_app_def)
  have k: "lower (str (UStr hr_uuid_upper)) \<in> fst ` set (services srv_service)"
    by (simp add: str_def lower_hr_uuid srv_service_def)
  from add_new_service_duplicate [OF i k] i k show ?thesis
    by simp
qed

subsection \<open>An absent initial value\<close>

lemma add_new_characteristic_success:
  assumes "fst (add_new_characteristic ev s su cu p v perm) = Inr ()"
  obtains s1 a gc a' where
    "await_setup ev s = (Inr (), s1)" and "app s1 = Some a" and
    "app_add_characteristic a (lower (str su)) (lower (str cu))
       (case v of None \<Rightarrow> [] | Some x \<Rightarrow> x) (from_bless ev p) = Inr (gc, a')" and
    "app (snd (add_new_characteristic ev s su cu p v perm)) = Some a'"
  using assms
  by (auto simp: add_new_characteristic_def seq_def get_app_def get_bus_def lift_def
      native_def Let_def split: option.splits sum.splits prod.splits)

lemma add_new_characteristic_registered:
  assumes "fst (add_new_characteristic ev s su cu p v perm) = Inr ()"
  shows "registered_value (snd (add_new_characteristic ev s su cu p v perm))
           (lower (str su)) (lower (str cu)) =
         Some (case v of None \<Rightarrow> [] | Some x \<Rightarrow> x)"
proof -
  from assms obtain s1 a gc a' where
    add: "app_add_characteristic a (lower (str su)) (lower (str cu))
       (case v of None \<Rightarrow> [] | Some x \<Rightarrow> x) (from_bless ev p) = Inr (gc, a')" and
    app: "app (snd (add_new_characteristic ev s su cu p v perm)) = Some a'"
    by (rule add_new_characteristic_success)
  show ?thesis
    using app_add_characteristic_value [OF add] app
    by (simp add: registered_value_def)
qed

text \<open>
  C7. \<open>add_new_characteristic\<close> with no initial value (\<^verbatim>\<open>None\<close>) does exactly what it does
  with the empty byte sequence, and when it succeeds the characteristic the application
  has registered holds the empty byte sequence: the backend never receives \<^verbatim>\<open>None\<close>.
\<close>

theorem absent_value_is_empty_bytes:
  "add_new_characteristic ev s su cu p None perm =
     add_new_characteristic ev s su cu p (Some []) perm \<and>
   (fst (add_new_characteristic ev s su cu p None perm) = Inr () \<longrightarrow>
    registered_value (snd (add_new_characteristic ev s su cu p None perm))
      (lower (str su)) (lower (str cu)) = Some [])"
  using add_new_characteristic_registered [of ev s su cu p None perm]
  by (simp add: add_new_characteristic_def)

theorem absent_value_is_empty_bytes_witness:
  "fst (add_new_characteristic ev_ok srv_service (UStr hr_uuid_upper) (UStr hrm_uuid_upper)
          26 None 3) = Inr () \<and>
   registered_value
     (snd (add_new_characteristic ev_ok srv_service (UStr hr_uuid_upper) (UStr hrm_uuid_upper)
             26 None 3))
     hr_uuid hrm_uuid = Some []"
proof -
  have ok: "fst (add_new_characteristic ev_ok srv_service (UStr hr_uuid_upper)
                   (UStr hrm_uuid_upper) 26 None 3) = Inr ()"
    by (simp add: srv_char_reached)
  from absent_value_is_empty_bytes
         [of ev_ok srv_service "UStr hr_uuid_upper" "UStr hrm_uuid_upper" 26 3,
          THEN conjunct2] ok
  show ?thesis
    by (simp add: str_def lower_hr_uuid lower_hrm_uuid)
qed

subsection \<open>What \<open>update_value\<close> returns\<close>

text \<open>No input makes \<open>update_value\<close> return \<^verbatim>\<open>True\<close>: it has no such \<^verbatim>\<open>return\<close>.\<close>

lemma update_value_never_True: "fst (update_value s su cu) \<noteq> Inr (PyBool True)"
  by (simp add: update_value_def seq_def get_app_def Let_def
      split: option.splits prod.splits)

lemma update_value_unknown_service:
  "map_of (services s) su = None \<Longrightarrow> update_value s su cu = (Inl (KeyError su), s)"
  by (simp add: update_value_def)

lemma update_value_unknown_characteristic:
  "map_of (services s) su = Some sv \<Longrightarrow> get_characteristic sv cu = None \<Longrightarrow>
   update_value s su cu = (Inr (PyBool False), s)"
  by (simp add: update_value_def)

lemma update_value_unset_value:
  "map_of (services s) su = Some sv \<Longrightarrow> get_characteristic sv cu = Some c \<Longrightarrow>
   bc_value c = None \<Longrightarrow> update_value s su cu = (Inr (PyBool False), s)"
  by (simp add: update_value_def)

text \<open>
  C1. The claim is that \<open>update_value\<close> returns \<^verbatim>\<open>True\<close> when the characteristic is
  found and has a stored value. On the server whose heart-rate measurement characteristic
  stores \<^verbatim>\<open>b"\x01"\<close>, found under both UUIDs and with no subscriber, the method assigns the
  value and returns \<^verbatim>\<open>None\<close>.
\<close>

theorem update_value_returns_None:
  "fst (update_value srv_valued hr_uuid hrm_uuid) = Inr PyNone"
  by (simp add: update_value_def seq_def get_app_def Let_def get_characteristic_def
      set_value_def srv_valued_def srv_with_def hrm_gatt_def hrm_bleak_def test_app_def)

text \<open>
  C3. The claim is that \<open>update_value\<close> returns \<^verbatim>\<open>False\<close> and does not raise for a pair of
  UUIDs that names no registered characteristic. On a server with no service at all, the
  dictionary lookup raises \<^verbatim>\<open>KeyError\<close> and the server is left as it was.
\<close>

theorem update_value_unknown_service_raises:
  "update_value srv_new hr_uuid hrm_uuid = (Inl (KeyError hr_uuid), srv_new)"
  by (simp add: update_value_def srv_new_def init_def)

subsection \<open>Routing reads and writes\<close>

text \<open>
  C4. With a read handler registered, a read of a registered characteristic replies with
  what the handler returns for the characteristic's UUID, whatever value is stored.
\<close>

theorem read_replies_with_handler_result:
  assumes "read_request_func hs = Some h"
    and "find_characteristic s (gc_uuid c) = Some bc"
  shows "read hs s c = h s (gc_uuid c)"
  using assms by (simp add: read_def read_request_def)

theorem read_replies_with_handler_result_witness:
  "read_request_func test_handlers = Some read_seven \<and>
   find_characteristic srv_valued (gc_uuid hrm_gatt) = Some (hrm_bleak (Some [1])) \<and>
   stored_value srv_valued (gc_uuid hrm_gatt) = Some [1] \<and>
   read test_handlers srv_valued hrm_gatt = Inr [7]"
proof -
  have h: "read_request_func test_handlers = Some read_seven"
    by (simp add: test_handlers_def)
  have f: "find_characteristic srv_valued (gc_uuid hrm_gatt) = Some (hrm_bleak (Some [1]))"
    by (simp add: find_characteristic_def srv_valued_def srv_with_def hrm_gatt_def
        hrm_bleak_def)
  from read_replies_with_handler_result [OF h f] h f show ?thesis
    by (simp add: read_seven_def stored_value_def hrm_bleak_def)
qed

text \<open>
  C5. With a write handler registered, a write of payload \<open>P\<close> to a registered
  characteristic is one application of the handler to the characteristic's UUID and \<open>P\<close>,
  on the server as it was before the write: the router changes nothing itself, before or
  after.
\<close>

theorem write_invokes_handler_once:
  assumes "write_request_func hs = Some h"
    and "find_characteristic s (gc_uuid c) = Some bc"
  shows "write_hook hs s c P = h (gc_uuid c) P s"
  using assms by (simp add: write_hook_def write_request_def)

theorem write_invokes_handler_once_witness:
  "write_request_func test_handlers = Some append_payload \<and>
   find_characteristic srv_valued (gc_uuid hrm_gatt) = Some (hrm_bleak (Some [1])) \<and>
   write_hook test_handlers srv_valued hrm_gatt [2] = (Inr (), srv_with (Some [1, 2]))"
proof -
  have h: "write_request_func test_handlers = Some append_payload"
    by (simp add: test_handlers_def)
  have f: "find_characteristic srv_valued (gc_uuid hrm_gatt) = Some (hrm_bleak (Some [1]))"
    by (simp add: find_characteristic_def srv_valued_def srv_with_def hrm_gatt_def
        hrm_bleak_def)
  from write_invokes_handler_once [OF h f, of "[2]"] h f show ?thesis
    by (simp add: append_payload_def srv_valued_def srv_with_def hrm_gatt_def hrm_bleak_def)
qed

subsection \<open>Canonical UUIDs\<close>







lemma canonical_server_init: "canonical_server (init nm p)"
  by (simp add: canonical_server_def init_def)














subsection \<open>Who awaits the setup task\<close>











text \<open>
  On a server just constructed, \<open>is_advertising\<close> issues the two calls of the bootstrap and
  nothing else; a second call issues nothing.
\<close>

lemma is_advertising_twice:
  "trace (snd (is_advertising ev_ok srv_new)) = [Connect, GetAdapter]"
  "trace (snd (is_advertising ev_ok (snd (is_advertising ev_ok srv_new)))) =
     [Connect, GetAdapter]"
  by (simp_all add: is_advertising_def app_is_advertising_def await_setup_def setup_coro_def
      seq_def native_def get_app_def get_adapter_attr_def new_application_def Let_def
      srv_new_def init_def ev_ok_def)


subsection \<open>Best-effort operations\<close>

text \<open>
  C9. When the native call of \<open>disconnect\<close>, \<open>set_connected_callback\<close> or
  \<open>set_disconnected_callback\<close> fails, the method returns \<^verbatim>\<open>False\<close>; and whatever the
  transport does, each of the three returns a bool and raises nothing.
\<close>

theorem native_failure_reported_as_False:
  "(native_outcome ev
      (CallRemote (device_path s mac) ''Disconnect'' DEVICE_INTERFACE BLUEZ_SERVICE) = Some e1
      \<longrightarrow> fst (disconnect ev s mac) = Inr False) \<and>
   (native_outcome ev (AddMatch f OBJECT_MANAGER ''InterfacesAdded'') = Some e2
      \<longrightarrow> fst (set_connected_callback ev s f) = Inr False) \<and>
   (native_outcome ev (AddMatch f OBJECT_MANAGER ''InterfacesRemoved'') = Some e3
      \<longrightarrow> fst (set_disconnected_callback ev s f) = Inr False) \<and>
   fst (disconnect ev s mac) \<in> {Inr True, Inr False} \<and>
   fst (set_connected_callback ev s f) \<in> {Inr True, Inr False} \<and>
   fst (set_disconnected_callback ev s f) \<in> {Inr True, Inr False}"
  by (simp add: disconnect_def set_connected_callback_def set_disconnected_callback_def
      seq_def get_bus_def native_def Let_def split: option.splits)

theorem native_failure_reported_as_False_witness:
  "native_outcome ev_down
     (CallRemote (device_path srv_service ''AA:BB:CC:DD:EE:FF'') ''Disconnect''
        DEVICE_INTERFACE BLUEZ_SERVICE) =
     Some (DBusError ''org.freedesktop.DBus.Error.NoReply'') \<and>
   device_path srv_service ''AA:BB:CC:DD:EE:FF'' = ''/org/bluez/hci0/dev_AA_BB_CC_DD_EE_FF'' \<and>
   fst (disconnect ev_down srv_service ''AA:BB:CC:DD:EE:FF'') = Inr False \<and>
   native_outcome ev_down (AddMatch (Function 7) OBJECT_MANAGER ''InterfacesAdded'') =
     Some (DBusError ''org.freedesktop.DBus.Error.NoReply'') \<and>
   fst (set_connected_callback ev_down srv_service (Function 7)) = Inr False \<and>
   native_outcome ev_down (AddMatch (Function 7) OBJECT_MANAGER ''InterfacesRemoved'') =
     Some (DBusError ''org.freedesktop.DBus.Error.NoReply'') \<and>
   fst (set_disconnected_callback ev_down srv_service (Function 7)) = Inr False"
  using native_failure_reported_as_False
          [of ev_down srv_service "''AA:BB:CC:DD:EE:FF''"
             "DBusError ''org.freedesktop.DBus.Error.NoReply''" "Function 7"
             "DBusError ''org.freedesktop.DBus.Error.NoReply''"
             "DBusError ''org.freedesktop.DBus.Error.NoReply''"]
  by (simp add: ev_down_def device_path_def srv_service_def replace_char_def)

text \<open>
  C10. For a callable argument, \<open>set_connected_callback\<close> and \<open>set_disconnected_callback\<close>
  leave the new function in the slot whatever the native registration does, and on a
  server with a bus the one native call issued is the registration of that new function:
  the slot was written before the call read it. Nothing puts the old function back.
\<close>

theorem callback_slot_replaced_first:
  "callable f \<longrightarrow>
     connected_callback (snd (set_connected_callback ev s f)) = f \<and>
     disconnected_callback (snd (set_disconnected_callback ev s f)) = f \<and>
     (bus s \<noteq> None \<longrightarrow>
        trace (snd (set_connected_callback ev s f)) =
          trace s @ [AddMatch f OBJECT_MANAGER ''InterfacesAdded''] \<and>
        trace (snd (set_disconnected_callback ev s f)) =
          trace s @ [AddMatch f OBJECT_MANAGER ''InterfacesRemoved''])"
  by (simp add: set_connected_callback_def set_disconnected_callback_def
      seq_def get_bus_def native_def Let_def split: option.splits)

theorem callback_slot_replaced_first_witness:
  "callable (Function 7) \<and> bus srv_service \<noteq> None \<and>
   fst (set_connected_callback ev_down srv_service (Function 7)) = Inr False \<and>
   connected_callback srv_service = DefaultLambda \<and>
   connected_callback (snd (set_connected_callback ev_down srv_service (Function 7))) =
     Function 7 \<and>
   fst (set_disconnected_callback ev_down srv_service (Function 7)) = Inr False \<and>
   disconnected_callback (snd (set_disconnected_callback ev_down srv_service (Function 7))) =
     Function 7 \<and>
   trace (snd (set_connected_callback ev_down srv_service (Function 7))) =
     trace srv_service @ [AddMatch (Function 7) OBJECT_MANAGER ''InterfacesAdded'']"
proof -
  have c: "callable (Function 7)"
    by simp
  have b: "bus srv_service \<noteq> None"
    by (simp add: srv_service_def)
  have r: "fst (set_connected_callback ev_down srv_service (Function 7)) = Inr False"
    "fst (set_disconnected_callback ev_down srv_service (Function 7)) = Inr False"
    "connected_callback srv_service = DefaultLambda"
    by (simp_all add: set_connected_callback_def set_disconnected_callback_def
        seq_def get_bus_def native_def Let_def srv_service_def ev_down_def)
  from callback_slot_replaced_first [of "Function 7" ev_down srv_service] c b r
  show ?thesis
    by simp
qed

end
